theory Spec2Isabelle
  imports Main "HOL-Library.Word"
begin

unbundle bit_operations_syntax

section \<open>Values, exceptions and the outside world\<close>

text \<open>
  JSON values as Python holds them: what \<open>request.get_json()\<close> parses, what the
  detection service puts into its payload and what \<open>jsonify\<close> serialises. A float is
  kept as its 64 IEEE bits; the program never computes with one. A dict is a map.
\<close>

datatype json =
    JNull
  | JBool bool
  | JInt int
  | JFloat "64 word"
  | JStr string
  | JList "json list"
  | JObj "string \<Rightarrow> json option"

text \<open>
  Python exceptions. \<open>Raised m\<close> is an exception (a subclass of \<open>Exception\<close>) thrown by a
  collaborator outside the program (werkzeug, the transcoder, boto3, the OpenAI client), where \<open>m\<close>
  is what \<open>str(e)\<close> gives for it.
\<close>

datatype exn =
    Exception string
  | KeyError string
  | IndexError string
  | AttributeError string
  | Raised string

text \<open>\<open>str(e)\<close>: the message, except that a \<open>KeyError\<close> shows the repr of the missing key
  (the keys of this program are plain identifiers, whose repr is the key in single quotes).\<close>

fun str_exn :: "exn \<Rightarrow> string" where
  "str_exn (Exception m) = m"
| "str_exn (KeyError k) = [CHR 0x27] @ k @ [CHR 0x27]"
| "str_exn (IndexError m) = m"
| "str_exn (AttributeError m) = m"
| "str_exn (Raised m) = m"

text \<open>Python's truth value of a parsed JSON value, as \<open>not user_input\<close> tests it.\<close>

fun truthy :: "json \<Rightarrow> bool" where
  "truthy JNull = False"
| "truthy (JBool b) = b"
| "truthy (JInt i) = (i \<noteq> 0)"
| "truthy (JFloat w) = (w AND mask 63 \<noteq> 0)"
| "truthy (JStr s) = (s \<noteq> [])"
| "truthy (JList xs) = (xs \<noteq> [])"
| "truthy (JObj m) = (m \<noteq> Map.empty)"

fun type_name :: "json \<Rightarrow> string" where
  "type_name JNull = ''NoneType''"
| "type_name (JBool b) = ''bool''"
| "type_name (JInt i) = ''int''"
| "type_name (JFloat w) = ''float''"
| "type_name (JStr s) = ''str''"
| "type_name (JList xs) = ''list''"
| "type_name (JObj m) = ''dict''"

text \<open>
  The response of \<open>get_face_detection\<close>, restricted to the five keys the program reads; each
  may be absent. \<open>JobStatus\<close> and \<open>StatusMessage\<close> are strings, as the service defines them;
  the three payload entries are passed on untouched and may hold any value.
\<close>

record face_detection =
  JobStatus :: "string option"
  StatusMessage :: "string option"
  VideoMetadata :: "json option"
  Faces :: "json option"
  NextToken :: "json option"

text \<open>The calls that leave the process, in the order they are made (logging is left out).\<close>

datatype event =
    FileSave string string
  | Convert string
  | S3Upload string string string
  | StartFaceDetection string string string
  | GetFaceDetection string
  | Sleep nat
  | ChatCompletion string json nat

text \<open>
  The collaborators and the deployment, none of them code of this program:
  \<^item> \<open>BASE_DIR\<close>: the directory of the script;
  \<^item> \<open>secure_filename\<close>: werkzeug's sanitiser;
  \<^item> \<open>file_save path data\<close>: \<open>file.save(path)\<close>, the exception it raises if any;
  \<^item> \<open>convert_video_to_aws_rekognition path\<close>: the transcoder, the converted path or an exception;
  \<^item> \<open>upload_file filename bucket key\<close>: the S3 client;
  \<^item> \<open>start_face_detection bucket name attributes\<close>: the \<open>JobId\<close> entry of the response, if it
    has one;
  \<^item> \<open>get_face_detection k job_id\<close>: the answer to the request made after \<open>k\<close> earlier ones;
  \<^item> \<open>chat_completions_create model content max_tokens\<close>: \<open>message.content\<close> of each choice.
\<close>

record env =
  BASE_DIR :: string
  secure_filename :: "string \<Rightarrow> string"
  file_save :: "string \<Rightarrow> string \<Rightarrow> exn option"
  convert_video_to_aws_rekognition :: "string \<Rightarrow> exn + string"
  upload_file :: "string \<Rightarrow> string \<Rightarrow> string \<Rightarrow> exn option"
  start_face_detection :: "string \<Rightarrow> string \<Rightarrow> string \<Rightarrow> exn + string option"
  get_face_detection :: "nat \<Rightarrow> string \<Rightarrow> exn + face_detection"
  chat_completions_create :: "string \<Rightarrow> json \<Rightarrow> nat \<Rightarrow> exn + json list"

fun is_poll :: "event \<Rightarrow> bool" where
  "is_poll (GetFaceDetection j) = True"
| "is_poll _ = False"

definition polls_made :: "event list \<Rightarrow> nat" where
  "polls_made t = length (filter is_poll t)"

fun is_store :: "event \<Rightarrow> bool" where
  "is_store (S3Upload path bucket key) = True"
| "is_store _ = False"

section \<open>Requests and responses\<close>

record file_storage =
  filename :: string
  stream :: string

record upload_request =
  files :: "string \<Rightarrow> file_storage option"

record gpt_request =
  get_json :: "exn + json"

record http_response =
  body :: json
  status_code :: nat

definition jsonify_error :: "string \<Rightarrow> nat \<Rightarrow> http_response" where
  "jsonify_error m code = \<lparr>body = JObj [''error'' \<mapsto> JStr m], status_code = code\<rparr>"

section \<open>Configuration and library functions\<close>

definition S3_BUCKET :: string where
  "S3_BUCKET = ''jchang-fbla-bucket''"

definition ALLOWED_EXTENSIONS :: "string set" where
  "ALLOWED_EXTENSIONS = {''mp4'', ''mov'', ''avi''}"

text \<open>\<open>os.path.join\<close> of two parts and \<open>os.path.basename\<close>, on POSIX.\<close>

definition os_path_join :: "string \<Rightarrow> string \<Rightarrow> string" where
  "os_path_join a b =
     (if take 1 b = ''/'' then b
      else if a = [] \<or> last a = CHR ''/'' then a @ b
      else a @ ''/'' @ b)"

definition os_path_basename :: "string \<Rightarrow> string" where
  "os_path_basename p = rev (takeWhile (\<lambda>c. c \<noteq> CHR ''/'') (rev p))"

definition UPLOAD_FOLDER :: "env \<Rightarrow> string" where
  "UPLOAD_FOLDER env = os_path_join (BASE_DIR env) ''uploads''"


text \<open>\<open>str.lower\<close> on the ASCII letters; every other character is kept.\<close>

definition lower_char :: "char \<Rightarrow> char" where
  "lower_char c =
     (case map_of (zip ''ABCDEFGHIJKLMNOPQRSTUVWXYZ'' ''abcdefghijklmnopqrstuvwxyz'') c of
        Some l \<Rightarrow> l
      | None \<Rightarrow> c)"

definition str_lower :: "string \<Rightarrow> string" where
  "str_lower s = map lower_char s"

text \<open>\<open>s.rsplit(sep, 1)\<close>: one split at the last separator, or the string alone.\<close>

definition rsplit1 :: "char \<Rightarrow> string \<Rightarrow> string list" where
  "rsplit1 sep s =
     (if sep \<in> set s
      then [rev (tl (dropWhile (\<lambda>c. c \<noteq> sep) (rev s))), rev (takeWhile (\<lambda>c. c \<noteq> sep) (rev s))]
      else [s])"

section \<open>The program\<close>

definition allowed_file :: "string \<Rightarrow> exn + bool" where
  "allowed_file fname =
     (if CHR ''.'' \<in> set fname
      then (case rsplit1 CHR ''.'' fname of
              _ # ext # _ \<Rightarrow> Inr (str_lower ext \<in> ALLOWED_EXTENSIONS)
            | _ \<Rightarrow> Inl (IndexError ''list index out of range''))
      else Inr False)"

definition save_uploaded_file ::
    "env \<Rightarrow> file_storage \<Rightarrow> string \<Rightarrow> event list \<Rightarrow> (exn + string) \<times> event list" where
  "save_uploaded_file env file upload_folder t =
     (let fname = secure_filename env (filename file);
          file_path = os_path_join upload_folder fname;
          t1 = t @ [FileSave file_path (stream file)]
      in case file_save env file_path (stream file) of
           Some e \<Rightarrow> (Inl e, t1)
         | None \<Rightarrow> (Inr file_path, t1))"

partial_function (option) poll_face_detection ::
    "env \<Rightarrow> string \<Rightarrow> event list \<Rightarrow> ((exn + (string \<Rightarrow> json option)) \<times> event list) option" where
  "poll_face_detection env job_id t =
     (let t1 = t @ [GetFaceDetection job_id] in
      case get_face_detection env (polls_made t) job_id of
        Inl e \<Rightarrow> Some (Inl e, t1)
      | Inr response \<Rightarrow>
          (case JobStatus response of
             None \<Rightarrow> Some (Inl (KeyError ''JobStatus''), t1)
           | Some status \<Rightarrow>
               if status = ''SUCCEEDED'' then
                 Some (Inr [''status'' \<mapsto> JStr ''SUCCEEDED'',
                            ''video_metadata'' \<mapsto>
                               (case VideoMetadata response of None \<Rightarrow> JObj Map.empty | Some v \<Rightarrow> v),
                            ''faces'' \<mapsto> (case Faces response of None \<Rightarrow> JList [] | Some v \<Rightarrow> v),
                            ''next_token'' \<mapsto>
                               (case NextToken response of None \<Rightarrow> JStr '''' | Some v \<Rightarrow> v)],
                       t1)
               else if status = ''IN_PROGRESS'' then
                 poll_face_detection env job_id (t1 @ [Sleep 5])
               else
                 Some (Inl (Exception (case StatusMessage response of
                                         None \<Rightarrow> ''Face detection failed''
                                       | Some m \<Rightarrow> m)), t1)))"

definition process_face_detection ::
    "env \<Rightarrow> string \<Rightarrow> event list \<Rightarrow> (http_response \<times> event list) option" where
  "process_face_detection env video_name t =
     (let t1 = t @ [StartFaceDetection S3_BUCKET video_name ''ALL''] in
      case start_face_detection env S3_BUCKET video_name ''ALL'' of
        Inl e \<Rightarrow> Some (jsonify_error (str_exn e) 500, t1)
      | Inr response \<Rightarrow>
          (case response of
             None \<Rightarrow> Some (jsonify_error (str_exn (KeyError ''JobId'')) 500, t1)
           | Some job_id \<Rightarrow>
               (case poll_face_detection env job_id t1 of
                  None \<Rightarrow> None
                | Some (Inl e, t2) \<Rightarrow> Some (jsonify_error (str_exn e) 500, t2)
                | Some (Inr result, t2) \<Rightarrow> Some (\<lparr>body = JObj result, status_code = 200\<rparr>, t2))))"

definition gpt_api :: "env \<Rightarrow> gpt_request \<Rightarrow> event list \<Rightarrow> (exn + http_response) \<times> event list" where
  "gpt_api env request t =
     (case get_json request of
        Inl e \<Rightarrow> (Inl e, t)
      | Inr data \<Rightarrow>
          (case data of
             JObj d \<Rightarrow>
               (let user_input = (case d ''input'' of None \<Rightarrow> JStr '''' | Some v \<Rightarrow> v) in
                if \<not> truthy user_input then (Inr (jsonify_error ''No input provided'' 400), t)
                else
                  (let t1 = t @ [ChatCompletion ''gpt-3.5-turbo'' user_input 150] in
                   case chat_completions_create env ''gpt-3.5-turbo'' user_input 150 of
                     Inl e \<Rightarrow> (Inr (jsonify_error (str_exn e) 500), t1)
                   | Inr choices \<Rightarrow>
                       (case choices of
                          [] \<Rightarrow> (Inr (jsonify_error (str_exn (IndexError ''list index out of range'')) 500), t1)
                        | gpt_response # _ \<Rightarrow>
                            (Inr \<lparr>body = JObj [''response'' \<mapsto> gpt_response], status_code = 200\<rparr>, t1))))
           | _ \<Rightarrow>
               (Inl (AttributeError ([CHR 0x27] @ type_name data @ [CHR 0x27]
                                       @ '' object has no attribute '' @ [CHR 0x27] @ ''get'' @ [CHR 0x27])), t)))"

definition upload_video ::
    "env \<Rightarrow> upload_request \<Rightarrow> event list \<Rightarrow> ((exn + http_response) \<times> event list) option" where
  "upload_video env request t =
     (case files request ''file'' of
        None \<Rightarrow> Some (Inr (jsonify_error ''No file part'' 400), t)
      | Some file \<Rightarrow>
          if filename file = '''' then Some (Inr (jsonify_error ''No file selected'' 400), t)
          else
            (case allowed_file (filename file) of
               Inl e \<Rightarrow> Some (Inl e, t)
             | Inr ok \<Rightarrow>
                 if \<not> ok then
                   Some (Inr (jsonify_error ''Invalid file type. Allowed types: mp4, mov, avi'' 400), t)
                 else
                   (case save_uploaded_file env file (UPLOAD_FOLDER env) t of
                      (Inl e, t1) \<Rightarrow> Some (Inr (jsonify_error (str_exn e) 500), t1)
                    | (Inr saved_file_path, t1) \<Rightarrow>
                        (let t2 = t1 @ [Convert saved_file_path] in
                         case convert_video_to_aws_rekognition env saved_file_path of
                           Inl e \<Rightarrow> Some (Inr (jsonify_error (str_exn e) 500), t2)
                         | Inr converted_path \<Rightarrow>
                             (let converted_filename = os_path_basename converted_path;
                                  t3 = t2 @ [S3Upload converted_path S3_BUCKET converted_filename]
                              in case upload_file env converted_path S3_BUCKET converted_filename of
                                   Some e \<Rightarrow> Some (Inr (jsonify_error (str_exn e) 500), t3)
                                 | None \<Rightarrow>
                                     (case process_face_detection env converted_filename t3 of
                                        None \<Rightarrow> None
                                      | Some (r, t4) \<Rightarrow> Some (Inr r, t4)))))))"

section \<open>Stub collaborators\<close>

text \<open>
  A service response that carries a status and perhaps a status message and nothing else, and an
  environment with a scripted detection service: \<open>script k\<close> is the answer to the request
  made after \<open>k\<close> earlier ones.
\<close>

definition status_response :: "string \<Rightarrow> string option \<Rightarrow> face_detection" where
  "status_response s m =
     \<lparr>JobStatus = Some s, StatusMessage = m, VideoMetadata = None, Faces = None, NextToken = None\<rparr>"

text \<open>
  What werkzeug's \<open>secure_filename\<close> does with an ASCII name on POSIX: every \<open>/\<close> becomes a
  space, the words between runs of whitespace are joined with \<open>_\<close>, every character other
  than a letter, a digit, \<open>_\<close>, \<open>.\<close> and \<open>-\<close> is dropped, and \<open>.\<close> and \<open>_\<close> are stripped
  from both ends. The result may be empty.
\<close>

definition is_space :: "char \<Rightarrow> bool" where
  "is_space c \<longleftrightarrow>
     c \<in> set [CHR 0x09, CHR 0x0A, CHR 0x0B, CHR 0x0C, CHR 0x0D, CHR 0x1C, CHR 0x1D, CHR 0x1E,
              CHR 0x1F, CHR '' '']"

fun split_words :: "string \<Rightarrow> string \<Rightarrow> string list" where
  "split_words cur [] = (if cur = [] then [] else [rev cur])"
| "split_words cur (c # cs) =
     (if is_space c then (if cur = [] then split_words [] cs else rev cur # split_words [] cs)
      else split_words (c # cur) cs)"

fun join_words :: "string \<Rightarrow> string list \<Rightarrow> string" where
  "join_words sep [] = []"
| "join_words sep [w] = w"
| "join_words sep (w # ws) = w @ sep @ join_words sep ws"

definition strip_chars :: "string \<Rightarrow> string \<Rightarrow> string" where
  "strip_chars cs s = rev (dropWhile (\<lambda>c. c \<in> set cs) (rev (dropWhile (\<lambda>c. c \<in> set cs) s)))"

definition secure_filename_ascii :: "string \<Rightarrow> string" where
  "secure_filename_ascii s =
     strip_chars ''._''
       (filter (\<lambda>c. c \<in> set ''ABCDEFGHIJKLMNOPQRSTUVWXYZabcdefghijklmnopqrstuvwxyz0123456789_.-'')
          (join_words ''_'' (split_words [] (map (\<lambda>c. if c = CHR ''/'' then CHR '' '' else c) s))))"

text \<open>
  The stub environment: the sanitiser above, a disk that refuses to write to a path that names a
  directory, and a transcoder, a store, a job submission and a completion client that succeed.
\<close>

definition stub_env :: "(nat \<Rightarrow> exn + face_detection) \<Rightarrow> env" where
  "stub_env script =
     \<lparr>BASE_DIR = ''/srv/app'',
      secure_filename = secure_filename_ascii,
      file_save = (\<lambda>path data. if path \<noteq> [] \<and> last path = CHR ''/''
                                 then Some (Raised ''[Errno 21] Is a directory'') else None),
      convert_video_to_aws_rekognition = (\<lambda>path. Inr ''/srv/app/converted/clip_aws.mp4''),
      upload_file = (\<lambda>path bucket key. None),
      start_face_detection = (\<lambda>bucket name attributes. Inr (Some ''job-1'')),
      get_face_detection = (\<lambda>k job_id. script k),
      chat_completions_create = (\<lambda>model content max_tokens. Inr [JStr ''hi''])\<rparr>"

section \<open>Properties of \<open>allowed_file\<close>\<close>

lemma lower_char_dot: "lower_char c = CHR ''.'' \<longleftrightarrow> c = CHR ''.''"
  by (simp add: lower_char_def)

lemma str_lower_dot: "CHR ''.'' \<in> set (str_lower s) \<longleftrightarrow> CHR ''.'' \<in> set s"
proof -
  have "CHR ''.'' \<in> lower_char ` set s \<longleftrightarrow> CHR ''.'' \<in> set s"
  proof
    assume "CHR ''.'' \<in> lower_char ` set s"
    then obtain c where c: "c \<in> set s" "lower_char c = CHR ''.''" by auto
    then show "CHR ''.'' \<in> set s" by (simp add: lower_char_dot)
  next
    assume "CHR ''.'' \<in> set s"
    moreover have "lower_char CHR ''.'' = CHR ''.''" by (simp add: lower_char_dot)
    ultimately show "CHR ''.'' \<in> lower_char ` set s" by (metis imageI)
  qed
  then show ?thesis by (simp add: str_lower_def)
qed

lemma split_at_last:
  assumes "sep \<in> set s"
  shows "s = rev (tl (dropWhile (\<lambda>c. c \<noteq> sep) (rev s))) @ sep # rev (takeWhile (\<lambda>c. c \<noteq> sep) (rev s))"
proof -
  let ?P = "\<lambda>c. c \<noteq> sep"
  from assms have ne: "dropWhile ?P (rev s) \<noteq> []" by simp
  then have hd: "hd (dropWhile ?P (rev s)) = sep"
    using hd_dropWhile [of ?P "rev s"] by simp
  have "rev s = takeWhile ?P (rev s) @ dropWhile ?P (rev s)" by simp
  also have "dropWhile ?P (rev s) = sep # tl (dropWhile ?P (rev s))"
    using ne hd by (metis list.collapse)
  finally have "rev (rev s) = rev (takeWhile ?P (rev s) @ sep # tl (dropWhile ?P (rev s)))"
    by simp
  then show ?thesis by simp
qed

lemma suffix_unique:
  assumes "sep \<notin> set ext"
  shows "rev (takeWhile (\<lambda>c. c \<noteq> sep) (rev (pre @ sep # ext))) = ext"
proof -
  from assms have "takeWhile (\<lambda>c. c \<noteq> sep) (rev ext) = rev ext"
    by (auto simp: takeWhile_eq_all_conv)
  moreover have "rev (pre @ sep # ext) = rev ext @ sep # rev pre" by simp
  moreover have "takeWhile (\<lambda>c. c \<noteq> sep) (rev ext @ sep # rev pre)
      = takeWhile (\<lambda>c. c \<noteq> sep) (rev ext)"
    by (rule takeWhile_tail) simp
  ultimately show ?thesis by (simp only: rev_rev_ident)
qed

lemma allowed_file_split:
  assumes "CHR ''.'' \<notin> set ext"
  shows "allowed_file (pre @ CHR ''.'' # ext) = Inr (str_lower ext \<in> ALLOWED_EXTENSIONS)"
  using assms by (simp add: allowed_file_def rsplit1_def suffix_unique del: rev_append rev.simps)

lemma allowed_file_no_dot: "CHR ''.'' \<notin> set f \<Longrightarrow> allowed_file f = Inr False"
  by (simp add: allowed_file_def)

lemma allowed_file_spec:
  "allowed_file f =
     Inr (\<exists>pre ext. f = pre @ ''.'' @ ext \<and> CHR ''.'' \<notin> set ext \<and> str_lower ext \<in> ALLOWED_EXTENSIONS)"
proof (cases "CHR ''.'' \<in> set f")
  case False
  then have "\<not> (\<exists>pre ext. f = pre @ ''.'' @ ext)" by auto
  with False show ?thesis by (auto simp: allowed_file_no_dot)
next
  case True
  define p where "p = rev (tl (dropWhile (\<lambda>c. c \<noteq> CHR ''.'') (rev f)))"
  define e where "e = rev (takeWhile (\<lambda>c. c \<noteq> CHR ''.'') (rev f))"
  have f: "f = p @ CHR ''.'' # e"
    unfolding p_def e_def by (rule split_at_last [OF True])
  have e: "CHR ''.'' \<notin> set e"
    unfolding e_def by (auto dest: set_takeWhileD)
  have uniq: "ext = e" if "f = pre @ ''.'' @ ext" "CHR ''.'' \<notin> set ext" for pre ext
  proof -
    have "rev (takeWhile (\<lambda>c. c \<noteq> CHR ''.'') (rev (pre @ CHR ''.'' # ext))) = ext"
      by (rule suffix_unique [OF that(2)])
    with that(1) show ?thesis by (simp add: e_def)
  qed
  have "allowed_file f = Inr (str_lower e \<in> ALLOWED_EXTENSIONS)"
    unfolding f by (rule allowed_file_split [OF e])
  moreover have "(\<exists>pre ext. f = pre @ ''.'' @ ext \<and> CHR ''.'' \<notin> set ext \<and> str_lower ext \<in> ALLOWED_EXTENSIONS)
      \<longleftrightarrow> str_lower e \<in> ALLOWED_EXTENSIONS"
  proof
    assume "\<exists>pre ext. f = pre @ ''.'' @ ext \<and> CHR ''.'' \<notin> set ext \<and> str_lower ext \<in> ALLOWED_EXTENSIONS"
    then obtain pre ext where *: "f = pre @ ''.'' @ ext" "CHR ''.'' \<notin> set ext"
      "str_lower ext \<in> ALLOWED_EXTENSIONS" by blast
    from uniq [OF *(1,2)] *(3) show "str_lower e \<in> ALLOWED_EXTENSIONS" by simp
  next
    assume "str_lower e \<in> ALLOWED_EXTENSIONS"
    with f e have "f = p @ ''.'' @ e \<and> CHR ''.'' \<notin> set e \<and> str_lower e \<in> ALLOWED_EXTENSIONS"
      by simp
    then show "\<exists>pre ext. f = pre @ ''.'' @ ext \<and> CHR ''.'' \<notin> set ext \<and> str_lower ext \<in> ALLOWED_EXTENSIONS"
      by blast
  qed
  ultimately show ?thesis by simp
qed


lemma lower_dot_self: "lower_char CHR ''.'' = CHR ''.''"
  by (simp add: lower_char_dot)

lemma lower_split_forward:
  assumes "(\<exists>pre ext. f = pre @ ''.'' @ ext \<and> CHR ''.'' \<notin> set ext \<and> str_lower ext \<in> ALLOWED_EXTENSIONS)"
  shows "(\<exists>pre ext. str_lower f = pre @ ''.'' @ ext \<and> CHR ''.'' \<notin> set ext \<and> ext \<in> ALLOWED_EXTENSIONS)"
proof -
  from assms obtain pre ext where *: "f = pre @ ''.'' @ ext" "CHR ''.'' \<notin> set ext"
    "str_lower ext \<in> ALLOWED_EXTENSIONS" by blast
  have "str_lower f = str_lower pre @ ''.'' @ str_lower ext"
    unfolding *(1) str_lower_def by (simp add: lower_dot_self)
  moreover have "CHR ''.'' \<notin> set (str_lower ext)" using *(2) by (simp add: str_lower_dot)
  ultimately have "str_lower f = str_lower pre @ ''.'' @ str_lower ext
      \<and> CHR ''.'' \<notin> set (str_lower ext) \<and> str_lower ext \<in> ALLOWED_EXTENSIONS"
    using *(3) by simp
  then show ?thesis by (intro exI)
qed

lemma map_split_at:
  assumes "map h xs = ys @ z # zs"
  shows "\<exists>p x e. xs = p @ x # e \<and> map h p = ys \<and> h x = z \<and> map h e = zs"
proof -
  let ?n = "length ys"
  have "map h (take ?n xs) = take ?n (map h xs)" by (simp add: take_map)
  also have "\<dots> = ys" by (simp add: assms)
  finally have p: "map h (take ?n xs) = ys" .
  have "map h (drop ?n xs) = drop ?n (map h xs)" by (simp add: drop_map)
  also have "\<dots> = z # zs" by (simp add: assms)
  finally have r: "map h (drop ?n xs) = z # zs" .
  then obtain x e where xe: "drop ?n xs = x # e" by (cases "drop ?n xs") auto
  with r have "h x = z" "map h e = zs" by simp_all
  moreover have "xs = take ?n xs @ x # e" using xe by (metis append_take_drop_id)
  ultimately show ?thesis using p by blast
qed

lemma lower_split_backward:
  assumes "(\<exists>pre ext. str_lower f = pre @ ''.'' @ ext \<and> CHR ''.'' \<notin> set ext \<and> ext \<in> ALLOWED_EXTENSIONS)"
  shows "(\<exists>pre ext. f = pre @ ''.'' @ ext \<and> CHR ''.'' \<notin> set ext \<and> str_lower ext \<in> ALLOWED_EXTENSIONS)"
proof -
  from assms obtain pre ext where *: "str_lower f = pre @ ''.'' @ ext" "CHR ''.'' \<notin> set ext"
    "ext \<in> ALLOWED_EXTENSIONS" by blast
  from *(1) have "map lower_char f = pre @ CHR ''.'' # ext" by (simp add: str_lower_def)
  from map_split_at [OF this]
  obtain p x e where pxe: "f = p @ x # e" "map lower_char p = pre" "lower_char x = CHR ''.''"
    "map lower_char e = ext"
    by blast
  from pxe(3) have x: "x = CHR ''.''" by (simp add: lower_char_dot)
  from pxe(4) have le: "str_lower e = ext" by (simp add: str_lower_def)
  with *(2) have "CHR ''.'' \<notin> set (str_lower e)" by simp
  then have "CHR ''.'' \<notin> set e" by (simp add: str_lower_dot)
  with pxe(1) x le *(3) have "f = p @ ''.'' @ e \<and> CHR ''.'' \<notin> set e \<and> str_lower e \<in> ALLOWED_EXTENSIONS"
    by simp
  then show ?thesis by (intro exI)
qed

lemma allowed_file_lower:
  "(\<exists>pre ext. f = pre @ ''.'' @ ext \<and> CHR ''.'' \<notin> set ext \<and> str_lower ext \<in> ALLOWED_EXTENSIONS)
   \<longleftrightarrow> (\<exists>pre ext. str_lower f = pre @ ''.'' @ ext \<and> CHR ''.'' \<notin> set ext \<and> ext \<in> ALLOWED_EXTENSIONS)"
  using lower_split_forward [of f] lower_split_backward [of f] by (rule iffI)

text \<open>
  Claim C3. \<open>allowed_file\<close> never raises, and it answers true exactly when the name splits
  as \<open>pre.ext\<close> with no further \<open>.\<close> in \<open>ext\<close> (so \<open>ext\<close> is what follows the last \<open>.\<close>)
  and the lowercased \<open>ext\<close> is \<open>mp4\<close>, \<open>mov\<close> or \<open>avi\<close>. A name without a \<open>.\<close> is
  rejected, and two names that differ only in the case of their letters get the same answer.
\<close>

theorem allowed_file_extension:
  "allowed_file f =
     Inr (\<exists>pre ext. f = pre @ ''.'' @ ext \<and> CHR ''.'' \<notin> set ext
            \<and> str_lower ext \<in> {''mp4'', ''mov'', ''avi''})
   \<and> (CHR ''.'' \<notin> set f \<longrightarrow> allowed_file f = Inr False)
   \<and> (str_lower f = str_lower g \<longrightarrow> allowed_file f = allowed_file g)"
proof -
  have a: "allowed_file f =
     Inr (\<exists>pre ext. f = pre @ ''.'' @ ext \<and> CHR ''.'' \<notin> set ext
            \<and> str_lower ext \<in> {''mp4'', ''mov'', ''avi''})"
    using allowed_file_spec [of f] by (simp only: ALLOWED_EXTENSIONS_def)
  have c: "allowed_file f = allowed_file g" if "str_lower f = str_lower g"
    using that by (simp only: allowed_file_spec allowed_file_lower)
  have b: "CHR ''.'' \<notin> set f \<longrightarrow> allowed_file f = Inr False"
    by (simp add: allowed_file_no_dot)
  have c': "str_lower f = str_lower g \<longrightarrow> allowed_file f = allowed_file g"
    using c by (rule impI)
  from a b c' show ?thesis by (intro conjI)
qed

theorem allowed_file_extension_witness:
  "allowed_file ''Clip.v2.MP4'' = Inr True \<and> allowed_file ''clip.txt'' = Inr False
   \<and> (CHR ''.'' \<notin> set ''mp4'' \<and> allowed_file ''mp4'' = Inr False)
   \<and> (str_lower ''A.Mov'' = str_lower ''a.mOV'' \<and> allowed_file ''A.Mov'' = allowed_file ''a.mOV'')"
proof -
  have l: "str_lower ''A.Mov'' = str_lower ''a.mOV''"
    by (simp add: str_lower_def lower_char_def)
  have d: "CHR ''.'' \<notin> set ''mp4''" by simp
  have 1: "allowed_file ''A.Mov'' = allowed_file ''a.mOV''"
    by (rule allowed_file_extension [of "''A.Mov''" "''a.mOV''", THEN conjunct2, THEN conjunct2, THEN mp, OF l])
  have 2: "allowed_file ''mp4'' = Inr False"
    by (rule allowed_file_extension [of "''mp4''" "''mp4''", THEN conjunct2, THEN conjunct1, THEN mp, OF d])
  have 3: "allowed_file ''Clip.v2.MP4'' = Inr True"
    by (simp add: allowed_file_def rsplit1_def str_lower_def lower_char_def ALLOWED_EXTENSIONS_def)
  have 4: "allowed_file ''clip.txt'' = Inr False"
    by (simp add: allowed_file_def rsplit1_def str_lower_def lower_char_def ALLOWED_EXTENSIONS_def)
  from 1 2 3 4 l d show ?thesis by (intro conjI)
qed

section \<open>The polling loop\<close>

lemma polls_made_get: "polls_made (t @ [GetFaceDetection j]) = Suc (polls_made t)"
  by (simp add: polls_made_def)

lemma polls_made_sleep: "polls_made (t @ [Sleep d]) = polls_made t"
  by (simp add: polls_made_def)

lemma poll_in_progress:
  assumes "get_face_detection env (polls_made t) job_id = Inr r"
    and "JobStatus r = Some ''IN_PROGRESS''"
  shows "poll_face_detection env job_id t
    = poll_face_detection env job_id (t @ [GetFaceDetection job_id, Sleep 5])"
  using assms by (subst poll_face_detection.simps) simp

lemma poll_succeeded:
  assumes "get_face_detection env (polls_made t) job_id = Inr r"
    and "JobStatus r = Some ''SUCCEEDED''"
  shows "poll_face_detection env job_id t
    = Some (Inr [''status'' \<mapsto> JStr ''SUCCEEDED'',
                 ''video_metadata'' \<mapsto> (case VideoMetadata r of None \<Rightarrow> JObj Map.empty | Some v \<Rightarrow> v),
                 ''faces'' \<mapsto> (case Faces r of None \<Rightarrow> JList [] | Some v \<Rightarrow> v),
                 ''next_token'' \<mapsto> (case NextToken r of None \<Rightarrow> JStr '''' | Some v \<Rightarrow> v)],
            t @ [GetFaceDetection job_id])"
  using assms by (subst poll_face_detection.simps) simp

lemma poll_other:
  assumes "get_face_detection env (polls_made t) job_id = Inr r"
    and "JobStatus r = Some s" and "s \<noteq> ''SUCCEEDED''" and "s \<noteq> ''IN_PROGRESS''"
  shows "poll_face_detection env job_id t
    = Some (Inl (Exception (case StatusMessage r of None \<Rightarrow> ''Face detection failed'' | Some m \<Rightarrow> m)),
            t @ [GetFaceDetection job_id])"
  using assms by (subst poll_face_detection.simps) simp

lemma poll_raises:
  assumes "get_face_detection env (polls_made t) job_id = Inl e"
  shows "poll_face_detection env job_id t = Some (Inl e, t @ [GetFaceDetection job_id])"
  using assms by (subst poll_face_detection.simps) simp

lemma poll_no_status:
  assumes "get_face_detection env (polls_made t) job_id = Inr r" and "JobStatus r = None"
  shows "poll_face_detection env job_id t
    = Some (Inl (KeyError ''JobStatus''), t @ [GetFaceDetection job_id])"
  using assms by (subst poll_face_detection.simps) simp

lemma poll_waits:
  assumes "\<forall>i<n. \<exists>r. get_face_detection env (polls_made t + i) job_id = Inr r
              \<and> JobStatus r = Some ''IN_PROGRESS''"
  shows "poll_face_detection env job_id t
    = poll_face_detection env job_id (t @ concat (replicate n [GetFaceDetection job_id, Sleep 5]))"
  using assms
proof (induction n arbitrary: t)
  case 0
  show ?case by simp
next
  case (Suc n)
  from Suc.prems obtain r where r: "get_face_detection env (polls_made t) job_id = Inr r"
    "JobStatus r = Some ''IN_PROGRESS''"
    by force
  let ?t = "t @ [GetFaceDetection job_id, Sleep 5]"
  have pm: "polls_made ?t = Suc (polls_made t)" by (simp add: polls_made_def)
  have "\<forall>i<n. \<exists>r. get_face_detection env (polls_made ?t + i) job_id = Inr r
              \<and> JobStatus r = Some ''IN_PROGRESS''"
  proof (intro allI impI)
    fix i assume "i < n"
    then have "Suc i < Suc n" by simp
    with Suc.prems have "\<exists>r. get_face_detection env (polls_made t + Suc i) job_id = Inr r
              \<and> JobStatus r = Some ''IN_PROGRESS''" by blast
    then show "\<exists>r. get_face_detection env (polls_made ?t + i) job_id = Inr r
              \<and> JobStatus r = Some ''IN_PROGRESS''" by (simp add: pm)
  qed
  from Suc.IH [OF this] poll_in_progress [OF r] show ?case by simp
qed

lemma polls_made_waits:
  "polls_made (t @ concat (replicate n [GetFaceDetection j, Sleep d])) = polls_made t + n"
  by (induction n arbitrary: t) (simp_all add: polls_made_def)

lemma poll_returns_after_waits:
  assumes "poll_face_detection env job_id t = Some y"
  shows "\<exists>n. (\<forall>i<n. \<exists>r. get_face_detection env (polls_made t + i) job_id = Inr r
                   \<and> JobStatus r = Some ''IN_PROGRESS'')
           \<and> (\<forall>r. get_face_detection env (polls_made t + n) job_id = Inr r
                   \<longrightarrow> JobStatus r \<noteq> Some ''IN_PROGRESS'')
           \<and> snd y = t @ concat (replicate n [GetFaceDetection job_id, Sleep 5])
                        @ [GetFaceDetection job_id]"
    (is "?P env job_id t y")
proof (rule poll_face_detection.raw_induct [where P = "\<lambda>env job_id t y. ?P env job_id t y", OF _ assms])
  fix f :: "env \<Rightarrow> string \<Rightarrow> event list \<Rightarrow> ((exn + (string \<Rightarrow> json option)) \<times> event list) option"
  fix env job_id t y
  assume IH: "\<And>env job_id t y. f env job_id t = Some y \<Longrightarrow> ?P env job_id t y"
  let ?t1 = "t @ [GetFaceDetection job_id]"
  assume body: "(let t1 = t @ [GetFaceDetection job_id]
      in case get_face_detection env (polls_made t) job_id of
         Inl e \<Rightarrow> Some (Inl e, t1)
         | Inr response \<Rightarrow>
             case JobStatus response of
             None \<Rightarrow> Some (Inl (KeyError ''JobStatus''), t1)
             | Some status \<Rightarrow>
                 if status = ''SUCCEEDED''
                 then Some
                       (Inr [''status'' \<mapsto> JStr ''SUCCEEDED'',
                             ''video_metadata'' \<mapsto>
                             case VideoMetadata response of
                             None \<Rightarrow> JObj (\<lambda>x. None) | Some v \<Rightarrow> v,
                             ''faces'' \<mapsto>
                             case Faces response of None \<Rightarrow> JList []
                             | Some v \<Rightarrow> v,
                             ''next_token'' \<mapsto>
                             case NextToken response of None \<Rightarrow> JStr []
                             | Some v \<Rightarrow> v],
                        t1)
                 else if status = ''IN_PROGRESS''
                      then f env job_id (t1 @ [Sleep 5])
                      else Some
                            (Inl (Exception
                                   (case StatusMessage response of
                                    None \<Rightarrow> ''Face detection failed''
                                    | Some m \<Rightarrow> m)),
                             t1)) =
     Some y"
  show "?P env job_id t y"
  proof (cases "\<exists>r. get_face_detection env (polls_made t) job_id = Inr r
                  \<and> JobStatus r = Some ''IN_PROGRESS''")
    case False
    then have np: "\<forall>r. get_face_detection env (polls_made t + 0) job_id = Inr r
                   \<longrightarrow> JobStatus r \<noteq> Some ''IN_PROGRESS''" by simp
    from False body have "snd y = ?t1"
      by (auto simp: Let_def split: sum.splits option.splits if_splits)
    then have "snd y = t @ concat (replicate 0 [GetFaceDetection job_id, Sleep 5])
                        @ [GetFaceDetection job_id]" by simp
    with np show ?thesis by blast
  next
    case True
    then obtain r where r: "get_face_detection env (polls_made t) job_id = Inr r"
      "JobStatus r = Some ''IN_PROGRESS''" by blast
    let ?t2 = "t @ [GetFaceDetection job_id, Sleep 5]"
    from r body have "f env job_id ?t2 = Some y" by (simp add: Let_def)
    from IH [OF this] obtain n where n:
      "\<forall>i<n. \<exists>r. get_face_detection env (polls_made ?t2 + i) job_id = Inr r
                   \<and> JobStatus r = Some ''IN_PROGRESS''"
      "\<forall>r. get_face_detection env (polls_made ?t2 + n) job_id = Inr r
                   \<longrightarrow> JobStatus r \<noteq> Some ''IN_PROGRESS''"
      "snd y = ?t2 @ concat (replicate n [GetFaceDetection job_id, Sleep 5])
                        @ [GetFaceDetection job_id]" by blast
    have pm: "polls_made ?t2 = Suc (polls_made t)" by (simp add: polls_made_def)
    have a: "\<forall>i<Suc n. \<exists>r. get_face_detection env (polls_made t + i) job_id = Inr r
                   \<and> JobStatus r = Some ''IN_PROGRESS''"
    proof (intro allI impI)
      fix i assume i: "i < Suc n"
      show "\<exists>r. get_face_detection env (polls_made t + i) job_id = Inr r
                   \<and> JobStatus r = Some ''IN_PROGRESS''"
      proof (cases i)
        case 0
        with r show ?thesis by auto
      next
        case (Suc j)
        with i have "j < n" by simp
        with n(1) have "\<exists>r. get_face_detection env (polls_made ?t2 + j) job_id = Inr r
                   \<and> JobStatus r = Some ''IN_PROGRESS''" by blast
        then show ?thesis by (simp add: pm Suc)
      qed
    qed
    have b: "\<forall>r. get_face_detection env (polls_made t + Suc n) job_id = Inr r
                   \<longrightarrow> JobStatus r \<noteq> Some ''IN_PROGRESS''"
      using n(2) by (simp add: pm)
    have c: "snd y = t @ concat (replicate (Suc n) [GetFaceDetection job_id, Sleep 5])
                        @ [GetFaceDetection job_id]"
      using n(3) by simp
    from a b c show ?thesis by blast
  qed
qed

lemma filter_waits:
  "filter is_poll (concat (replicate n [GetFaceDetection j, Sleep d]) @ [GetFaceDetection j])
     = replicate (n + 1) (GetFaceDetection j)"
  "filter (\<lambda>e. \<not> is_poll e) (concat (replicate n [GetFaceDetection j, Sleep d]) @ [GetFaceDetection j])
     = replicate n (Sleep d)"
  by (induction n) simp_all

text \<open>
  Claim C1. If the service answers \<open>IN_PROGRESS\<close> to the first \<open>n\<close> status requests of a
  call of \<open>poll_face_detection\<close> and \<open>SUCCEEDED\<close> to the next one, the call returns the
  payload built from that last response. What it adds to the trace is \<open>n\<close> times a request
  followed by a sleep of 5, and then one request: \<open>n + 1\<close> requests and \<open>n\<close> sleeps of 5 in
  all, none after the final response.
\<close>

theorem poll_face_detection_succeeds:
  assumes "\<forall>i<n. \<exists>r'. get_face_detection env (polls_made t + i) job_id = Inr r'
              \<and> JobStatus r' = Some ''IN_PROGRESS''"
    and "get_face_detection env (polls_made t + n) job_id = Inr r"
    and "JobStatus r = Some ''SUCCEEDED''"
  shows "\<exists>new. poll_face_detection env job_id t
           = Some (Inr [''status'' \<mapsto> JStr ''SUCCEEDED'',
                        ''video_metadata'' \<mapsto>
                           (case VideoMetadata r of None \<Rightarrow> JObj Map.empty | Some v \<Rightarrow> v),
                        ''faces'' \<mapsto> (case Faces r of None \<Rightarrow> JList [] | Some v \<Rightarrow> v),
                        ''next_token'' \<mapsto> (case NextToken r of None \<Rightarrow> JStr '''' | Some v \<Rightarrow> v)],
                   t @ new)
         \<and> new = concat (replicate n [GetFaceDetection job_id, Sleep 5]) @ [GetFaceDetection job_id]
         \<and> filter is_poll new = replicate (n + 1) (GetFaceDetection job_id)
         \<and> filter (\<lambda>e. \<not> is_poll e) new = replicate n (Sleep 5)"
proof -
  let ?w = "concat (replicate n [GetFaceDetection job_id, Sleep 5])"
  have "poll_face_detection env job_id t = poll_face_detection env job_id (t @ ?w)"
    by (rule poll_waits [OF assms(1)])
  moreover have "get_face_detection env (polls_made (t @ ?w)) job_id = Inr r"
    using assms(2) by (simp only: polls_made_waits)
  ultimately have "poll_face_detection env job_id t
           = Some (Inr [''status'' \<mapsto> JStr ''SUCCEEDED'',
                        ''video_metadata'' \<mapsto>
                           (case VideoMetadata r of None \<Rightarrow> JObj Map.empty | Some v \<Rightarrow> v),
                        ''faces'' \<mapsto> (case Faces r of None \<Rightarrow> JList [] | Some v \<Rightarrow> v),
                        ''next_token'' \<mapsto> (case NextToken r of None \<Rightarrow> JStr '''' | Some v \<Rightarrow> v)],
                   t @ (?w @ [GetFaceDetection job_id]))"
    using poll_succeeded [OF _ assms(3), of env "t @ ?w" job_id] by simp
  then show ?thesis using filter_waits [of n job_id 5] by blast
qed

theorem poll_face_detection_succeeds_witness:
  "poll_face_detection
      (stub_env (\<lambda>k. Inr (status_response (if k < 2 then ''IN_PROGRESS'' else ''SUCCEEDED'') None)))
      ''job-1'' []
    = Some (Inr [''status'' \<mapsto> JStr ''SUCCEEDED'', ''video_metadata'' \<mapsto> JObj Map.empty,
                 ''faces'' \<mapsto> JList [], ''next_token'' \<mapsto> JStr ''''],
            [GetFaceDetection ''job-1'', Sleep 5, GetFaceDetection ''job-1'', Sleep 5,
             GetFaceDetection ''job-1''])"
proof -
  let ?env = "stub_env (\<lambda>k. Inr (status_response (if k < 2 then ''IN_PROGRESS'' else ''SUCCEEDED'') None))"
  have a: "\<forall>i<2. \<exists>r'. get_face_detection ?env (polls_made [] + i) ''job-1'' = Inr r'
              \<and> JobStatus r' = Some ''IN_PROGRESS''"
    by (simp add: stub_env_def status_response_def polls_made_def)
  have b: "get_face_detection ?env (polls_made [] + 2) ''job-1'' = Inr (status_response ''SUCCEEDED'' None)"
    by (simp add: stub_env_def polls_made_def)
  have c: "JobStatus (status_response ''SUCCEEDED'' None) = Some ''SUCCEEDED''"
    by (simp add: status_response_def)
  have n2: "replicate 2 x = [x, x]" for x :: "event list"
    by (simp add: numeral_2_eq_2)
  from poll_face_detection_succeeds [OF a b c] show ?thesis
    by (simp add: status_response_def n2)
qed

text \<open>
  Claim C2. When the service, after any number of \<open>IN_PROGRESS\<close> answers, gives a status
  that is neither \<open>SUCCEEDED\<close> nor \<open>IN_PROGRESS\<close>, the loop makes no further request and
  raises an exception whose message is the \<open>StatusMessage\<close> of that response when it has one,
  and \<open>Face detection failed\<close> when it has none.
\<close>

theorem poll_face_detection_fails:
  assumes "\<forall>i<n. \<exists>r'. get_face_detection env (polls_made t + i) job_id = Inr r'
              \<and> JobStatus r' = Some ''IN_PROGRESS''"
    and "get_face_detection env (polls_made t + n) job_id = Inr r"
    and "JobStatus r = Some status"
    and "status \<noteq> ''SUCCEEDED''" and "status \<noteq> ''IN_PROGRESS''"
  shows "\<exists>msg. poll_face_detection env job_id t
           = Some (Inl (Exception msg),
                   t @ concat (replicate n [GetFaceDetection job_id, Sleep 5])
                     @ [GetFaceDetection job_id])
         \<and> str_exn (Exception msg) = msg
         \<and> msg = (case StatusMessage r of Some m \<Rightarrow> m | None \<Rightarrow> ''Face detection failed'')"
proof -
  let ?w = "concat (replicate n [GetFaceDetection job_id, Sleep 5])"
  have "poll_face_detection env job_id t = poll_face_detection env job_id (t @ ?w)"
    by (rule poll_waits [OF assms(1)])
  moreover have "get_face_detection env (polls_made (t @ ?w)) job_id = Inr r"
    using assms(2) by (simp only: polls_made_waits)
  ultimately have "poll_face_detection env job_id t
      = Some (Inl (Exception (case StatusMessage r of None \<Rightarrow> ''Face detection failed'' | Some m \<Rightarrow> m)),
              (t @ ?w) @ [GetFaceDetection job_id])"
    using poll_other [OF _ assms(3,4,5), of env "t @ ?w" job_id] by simp
  then show ?thesis by (simp split: option.split)
qed

theorem poll_face_detection_fails_witness:
  "poll_face_detection
      (stub_env (\<lambda>k. Inr (if k < 1 then status_response ''IN_PROGRESS'' None
                           else status_response ''FAILED'' (Some ''corrupt video''))))
      ''job-1'' []
    = Some (Inl (Exception ''corrupt video''),
            [GetFaceDetection ''job-1'', Sleep 5, GetFaceDetection ''job-1''])
   \<and> poll_face_detection (stub_env (\<lambda>k. Inr (status_response ''FAILED'' None))) ''job-1'' []
    = Some (Inl (Exception ''Face detection failed''), [GetFaceDetection ''job-1''])"
proof -
  let ?e1 = "stub_env (\<lambda>k. Inr (if k < 1 then status_response ''IN_PROGRESS'' None
                           else status_response ''FAILED'' (Some ''corrupt video'')))"
  let ?e2 = "stub_env (\<lambda>k. Inr (status_response ''FAILED'' None))"
  have a1: "\<forall>i<1. \<exists>r'. get_face_detection ?e1 (polls_made [] + i) ''job-1'' = Inr r'
              \<and> JobStatus r' = Some ''IN_PROGRESS''"
    by (simp add: stub_env_def status_response_def polls_made_def)
  have b1: "get_face_detection ?e1 (polls_made [] + 1) ''job-1''
      = Inr (status_response ''FAILED'' (Some ''corrupt video''))"
    by (simp add: stub_env_def polls_made_def)
  have c1: "JobStatus (status_response ''FAILED'' (Some ''corrupt video'')) = Some ''FAILED''"
    by (simp add: status_response_def)
  have a2: "\<forall>i<0. \<exists>r'. get_face_detection ?e2 (polls_made [] + i) ''job-1'' = Inr r'
              \<and> JobStatus r' = Some ''IN_PROGRESS''"
    by simp
  have b2: "get_face_detection ?e2 (polls_made [] + 0) ''job-1'' = Inr (status_response ''FAILED'' None)"
    by (simp add: stub_env_def polls_made_def)
  have c2: "JobStatus (status_response ''FAILED'' None) = Some ''FAILED''"
    by (simp add: status_response_def)
  have d: "''FAILED'' \<noteq> ''SUCCEEDED''" "''FAILED'' \<noteq> ''IN_PROGRESS''" by simp_all
  from poll_face_detection_fails [OF a1 b1 c1 d]
  have 1: "poll_face_detection ?e1 ''job-1'' []
    = Some (Inl (Exception ''corrupt video''),
            [GetFaceDetection ''job-1'', Sleep 5, GetFaceDetection ''job-1''])"
    by (simp add: status_response_def)
  from poll_face_detection_fails [OF a2 b2 c2 d]
  have 2: "poll_face_detection ?e2 ''job-1'' []
    = Some (Inl (Exception ''Face detection failed''), [GetFaceDetection ''job-1''])"
    by (simp add: status_response_def)
  from 1 2 show ?thesis by (rule conjI)
qed

text \<open>
  Claim C9. Whenever \<open>poll_face_detection\<close> returns a result, the result has exactly the keys
  \<open>status\<close>, \<open>video_metadata\<close>, \<open>faces\<close> and \<open>next_token\<close>; \<open>status\<close> is the string
  \<open>SUCCEEDED\<close>, and the other three are the \<open>VideoMetadata\<close>, \<open>Faces\<close> and \<open>NextToken\<close>
  entries of the last response of the service, or \<open>{}\<close>, \<open>[]\<close> and the empty string where the
  response has no such entry.
\<close>

theorem poll_face_detection_result:
  assumes "poll_face_detection env job_id t = Some (Inr result, t')"
  shows "dom result = {''status'', ''video_metadata'', ''faces'', ''next_token''}
     \<and> result ''status'' = Some (JStr ''SUCCEEDED'')
     \<and> (\<exists>r. get_face_detection env (polls_made t' - 1) job_id = Inr r
            \<and> JobStatus r = Some ''SUCCEEDED''
            \<and> result ''video_metadata''
                = Some (case VideoMetadata r of None \<Rightarrow> JObj Map.empty | Some v \<Rightarrow> v)
            \<and> result ''faces'' = Some (case Faces r of None \<Rightarrow> JList [] | Some v \<Rightarrow> v)
            \<and> result ''next_token'' = Some (case NextToken r of None \<Rightarrow> JStr '''' | Some v \<Rightarrow> v))"
proof -
  from poll_returns_after_waits [OF assms] obtain n where n:
    "\<forall>i<n. \<exists>r. get_face_detection env (polls_made t + i) job_id = Inr r
                   \<and> JobStatus r = Some ''IN_PROGRESS''"
    "\<forall>r. get_face_detection env (polls_made t + n) job_id = Inr r
                   \<longrightarrow> JobStatus r \<noteq> Some ''IN_PROGRESS''"
    "t' = t @ concat (replicate n [GetFaceDetection job_id, Sleep 5]) @ [GetFaceDetection job_id]"
    by auto
  let ?w = "t @ concat (replicate n [GetFaceDetection job_id, Sleep 5])"
  have pw: "polls_made ?w = polls_made t + n" by (rule polls_made_waits)
  have "polls_made t' = Suc (polls_made ?w)"
    unfolding n(3) using polls_made_get [of ?w job_id] by simp
  then have last: "polls_made t' - 1 = polls_made ?w" by simp
  have run: "poll_face_detection env job_id ?w = Some (Inr result, t')"
    using poll_waits [OF n(1)] assms by simp
  show ?thesis
  proof (cases "get_face_detection env (polls_made ?w) job_id")
    case (Inl e)
    from poll_raises [OF Inl] run show ?thesis by simp
  next
    case (Inr r)
    show ?thesis
    proof (cases "JobStatus r")
      case None
      from poll_no_status [OF Inr None] run show ?thesis by simp
    next
      case (Some s)
      show ?thesis
      proof (cases "s = ''SUCCEEDED''")
        case True
        with Some have st: "JobStatus r = Some ''SUCCEEDED''" by simp
        from poll_succeeded [OF Inr st] run
        have res: "result = [''status'' \<mapsto> JStr ''SUCCEEDED'',
                 ''video_metadata'' \<mapsto> (case VideoMetadata r of None \<Rightarrow> JObj Map.empty | Some v \<Rightarrow> v),
                 ''faces'' \<mapsto> (case Faces r of None \<Rightarrow> JList [] | Some v \<Rightarrow> v),
                 ''next_token'' \<mapsto> (case NextToken r of None \<Rightarrow> JStr '''' | Some v \<Rightarrow> v)]"
          by simp
        have d: "dom result = {''status'', ''video_metadata'', ''faces'', ''next_token''}"
          unfolding res by auto
        have s: "result ''status'' = Some (JStr ''SUCCEEDED'')" unfolding res by simp
        have v: "result ''video_metadata''
                = Some (case VideoMetadata r of None \<Rightarrow> JObj Map.empty | Some v \<Rightarrow> v)"
          unfolding res by simp
        have f: "result ''faces'' = Some (case Faces r of None \<Rightarrow> JList [] | Some v \<Rightarrow> v)"
          unfolding res by simp
        have k: "result ''next_token'' = Some (case NextToken r of None \<Rightarrow> JStr '''' | Some v \<Rightarrow> v)"
          unfolding res by simp
        from Inr have "get_face_detection env (polls_made t' - 1) job_id = Inr r"
          by (simp only: last)
        with st v f k have "\<exists>r. get_face_detection env (polls_made t' - 1) job_id = Inr r
            \<and> JobStatus r = Some ''SUCCEEDED''
            \<and> result ''video_metadata''
                = Some (case VideoMetadata r of None \<Rightarrow> JObj Map.empty | Some v \<Rightarrow> v)
            \<and> result ''faces'' = Some (case Faces r of None \<Rightarrow> JList [] | Some v \<Rightarrow> v)
            \<and> result ''next_token'' = Some (case NextToken r of None \<Rightarrow> JStr '''' | Some v \<Rightarrow> v)"
          by blast
        with d s show ?thesis by (intro conjI)
      next
        case False
        from n(2) Inr Some have "s \<noteq> ''IN_PROGRESS''" by (simp add: pw)
        from poll_other [OF Inr Some False this] run show ?thesis by simp
      qed
    qed
  qed
qed

theorem poll_face_detection_result_witness:
  "poll_face_detection
      (stub_env (\<lambda>k. Inr ((status_response ''SUCCEEDED'' None)\<lparr>Faces := Some (JList [JInt 1])\<rparr>)))
      ''job-1'' []
     = Some (Inr [''status'' \<mapsto> JStr ''SUCCEEDED'', ''video_metadata'' \<mapsto> JObj Map.empty,
                  ''faces'' \<mapsto> JList [JInt 1], ''next_token'' \<mapsto> JStr ''''],
             [GetFaceDetection ''job-1''])
   \<and> dom [''status'' \<mapsto> JStr ''SUCCEEDED'', ''video_metadata'' \<mapsto> JObj Map.empty,
          ''faces'' \<mapsto> JList [JInt 1], ''next_token'' \<mapsto> JStr '''']
     = {''status'', ''video_metadata'', ''faces'', ''next_token''}"
proof -
  let ?env = "stub_env (\<lambda>k. Inr ((status_response ''SUCCEEDED'' None)\<lparr>Faces := Some (JList [JInt 1])\<rparr>))"
  let ?r = "(status_response ''SUCCEEDED'' None)\<lparr>Faces := Some (JList [JInt 1])\<rparr>"
  have g: "get_face_detection ?env (polls_made []) ''job-1'' = Inr ?r"
    by (simp add: stub_env_def)
  have s: "JobStatus ?r = Some ''SUCCEEDED''" by (simp add: status_response_def)
  have run: "poll_face_detection ?env ''job-1'' []
     = Some (Inr [''status'' \<mapsto> JStr ''SUCCEEDED'', ''video_metadata'' \<mapsto> JObj Map.empty,
                  ''faces'' \<mapsto> JList [JInt 1], ''next_token'' \<mapsto> JStr ''''],
             [GetFaceDetection ''job-1''])"
    using poll_succeeded [OF g s] by (simp add: status_response_def)
  from poll_face_detection_result [OF run] have "dom [''status'' \<mapsto> JStr ''SUCCEEDED'', ''video_metadata'' \<mapsto> JObj Map.empty,
          ''faces'' \<mapsto> JList [JInt 1], ''next_token'' \<mapsto> JStr '''']
     = {''status'', ''video_metadata'', ''faces'', ''next_token''}" by (rule conjunct1)
  with run show ?thesis by (rule conjI)
qed

section \<open>The request handlers\<close>

text \<open>
  Claim C5. A \<open>POST /upload\<close> request without a file part, with an empty filename, or with a
  filename that \<open>allowed_file\<close> rejects (such as \<open>clip.txt\<close>) is answered with status 400,
  and the trace is left as it was: nothing is written to disk, and neither the transcoder nor the
  store nor the detection service is called.
\<close>

theorem upload_video_rejects_before_side_effects:
  "(files request ''file'' = None \<longrightarrow>
      upload_video env request t
        = Some (Inr \<lparr>body = JObj [''error'' \<mapsto> JStr ''No file part''], status_code = 400\<rparr>, t))
   \<and> (files request ''file'' = Some file \<and> filename file = '''' \<longrightarrow>
      upload_video env request t
        = Some (Inr \<lparr>body = JObj [''error'' \<mapsto> JStr ''No file selected''], status_code = 400\<rparr>, t))
   \<and> (files request ''file'' = Some file \<and> filename file \<noteq> ''''
        \<and> allowed_file (filename file) = Inr False \<longrightarrow>
      upload_video env request t
        = Some (Inr \<lparr>body = JObj [''error'' \<mapsto> JStr ''Invalid file type. Allowed types: mp4, mov, avi''],
                     status_code = 400\<rparr>, t))"
  by (simp add: upload_video_def jsonify_error_def)

theorem upload_video_rejects_before_side_effects_witness:
  "upload_video (stub_env (\<lambda>k. Inl (Raised ''unreachable''))) \<lparr>files = Map.empty\<rparr> []
     = Some (Inr \<lparr>body = JObj [''error'' \<mapsto> JStr ''No file part''], status_code = 400\<rparr>, [])
   \<and> upload_video (stub_env (\<lambda>k. Inl (Raised ''unreachable'')))
        \<lparr>files = [''file'' \<mapsto> \<lparr>filename = '''', stream = ''data''\<rparr>]\<rparr> []
     = Some (Inr \<lparr>body = JObj [''error'' \<mapsto> JStr ''No file selected''], status_code = 400\<rparr>, [])
   \<and> upload_video (stub_env (\<lambda>k. Inl (Raised ''unreachable'')))
        \<lparr>files = [''file'' \<mapsto> \<lparr>filename = ''clip.txt'', stream = ''data''\<rparr>]\<rparr> []
     = Some (Inr \<lparr>body = JObj [''error'' \<mapsto> JStr ''Invalid file type. Allowed types: mp4, mov, avi''],
                  status_code = 400\<rparr>, [])"
proof -
  let ?env = "stub_env (\<lambda>k. Inl (Raised ''unreachable''))"
  let ?f2 = "\<lparr>filename = '''', stream = ''data''\<rparr>"
  let ?f3 = "\<lparr>filename = ''clip.txt'', stream = ''data''\<rparr>"
  have a: "allowed_file ''clip.txt'' = Inr False"
    by (simp add: allowed_file_def rsplit1_def str_lower_def lower_char_def ALLOWED_EXTENSIONS_def)
  have 1: "upload_video ?env \<lparr>files = Map.empty\<rparr> []
     = Some (Inr \<lparr>body = JObj [''error'' \<mapsto> JStr ''No file part''], status_code = 400\<rparr>, [])"
    using upload_video_rejects_before_side_effects [of "\<lparr>files = Map.empty\<rparr>" ?env "[]" ?f2]
    by simp
  have 2: "upload_video ?env \<lparr>files = [''file'' \<mapsto> ?f2]\<rparr> []
     = Some (Inr \<lparr>body = JObj [''error'' \<mapsto> JStr ''No file selected''], status_code = 400\<rparr>, [])"
    using upload_video_rejects_before_side_effects [of "\<lparr>files = [''file'' \<mapsto> ?f2]\<rparr>" ?env "[]" ?f2]
    by simp
  have 3: "upload_video ?env \<lparr>files = [''file'' \<mapsto> ?f3]\<rparr> []
     = Some (Inr \<lparr>body = JObj [''error'' \<mapsto> JStr ''Invalid file type. Allowed types: mp4, mov, avi''],
                  status_code = 400\<rparr>, [])"
    using upload_video_rejects_before_side_effects [of "\<lparr>files = [''file'' \<mapsto> ?f3]\<rparr>" ?env "[]" ?f3] a
    by simp
  from 1 2 3 show ?thesis by (intro conjI)
qed

text \<open>
  Claim C6, as amended. A \<open>POST /gpt\<close> request that carries no non-empty \<open>input\<close> (its body
  is not a JSON object, or the object has no \<open>input\<close> entry, or the entry is the empty string or
  another value that Python takes for false) never reaches the completion client: the trace is
  left as it was. When the body is a JSON object, the answer is status 400 with an error body.
\<close>

theorem gpt_api_rejects_empty_input:
  assumes "\<forall>d v. get_json request = Inr (JObj d) \<and> d ''input'' = Some v \<longrightarrow> \<not> truthy v"
  shows "snd (gpt_api env request t) = t
     \<and> (\<forall>d. get_json request = Inr (JObj d) \<longrightarrow>
           gpt_api env request t
             = (Inr \<lparr>body = JObj [''error'' \<mapsto> JStr ''No input provided''], status_code = 400\<rparr>, t))"
proof -
  have obj: "gpt_api env request t
      = (Inr \<lparr>body = JObj [''error'' \<mapsto> JStr ''No input provided''], status_code = 400\<rparr>, t)"
    if d: "get_json request = Inr (JObj d)" for d
  proof (cases "d ''input''")
    case None
    with d show ?thesis by (simp add: gpt_api_def jsonify_error_def)
  next
    case (Some v)
    with assms d have "\<not> truthy v" by blast
    with d Some show ?thesis by (simp add: gpt_api_def jsonify_error_def)
  qed
  have "snd (gpt_api env request t) = t"
  proof (cases "get_json request")
    case (Inl e)
    then show ?thesis by (simp add: gpt_api_def)
  next
    case (Inr data)
    show ?thesis
    proof (cases data)
      case (JObj d)
      with Inr obj [of d] show ?thesis by simp
    qed (use Inr in \<open>simp_all add: gpt_api_def\<close>)
  qed
  with obj show ?thesis by blast
qed

theorem gpt_api_rejects_empty_input_witness:
  "gpt_api (stub_env (\<lambda>k. Inl (Raised ''unreachable'')))
      \<lparr>get_json = Inr (JObj [''input'' \<mapsto> JStr ''''])\<rparr> []
    = (Inr \<lparr>body = JObj [''error'' \<mapsto> JStr ''No input provided''], status_code = 400\<rparr>, [])
   \<and> gpt_api (stub_env (\<lambda>k. Inl (Raised ''unreachable'')))
      \<lparr>get_json = Inr (JObj Map.empty)\<rparr> []
    = (Inr \<lparr>body = JObj [''error'' \<mapsto> JStr ''No input provided''], status_code = 400\<rparr>, [])
   \<and> snd (gpt_api (stub_env (\<lambda>k. Inl (Raised ''unreachable''))) \<lparr>get_json = Inr JNull\<rparr> []) = []"
proof -
  let ?env = "stub_env (\<lambda>k. Inl (Raised ''unreachable''))"
  let ?r1 = "\<lparr>get_json = Inr (JObj [''input'' \<mapsto> JStr ''''])\<rparr>"
  let ?r2 = "\<lparr>get_json = Inr (JObj Map.empty)\<rparr>"
  let ?r3 = "\<lparr>get_json = Inr JNull\<rparr>"
  have h1: "\<forall>d v. get_json ?r1 = Inr (JObj d) \<and> d ''input'' = Some v \<longrightarrow> \<not> truthy v"
    by auto
  have h2: "\<forall>d v. get_json ?r2 = Inr (JObj d) \<and> d ''input'' = Some v \<longrightarrow> \<not> truthy v"
    by auto
  have h3: "\<forall>d v. get_json ?r3 = Inr (JObj d) \<and> d ''input'' = Some v \<longrightarrow> \<not> truthy v"
    by simp
  have 1: "gpt_api ?env ?r1 []
    = (Inr \<lparr>body = JObj [''error'' \<mapsto> JStr ''No input provided''], status_code = 400\<rparr>, [])"
    using gpt_api_rejects_empty_input [OF h1, of ?env "[]"] by simp
  have 2: "gpt_api ?env ?r2 []
    = (Inr \<lparr>body = JObj [''error'' \<mapsto> JStr ''No input provided''], status_code = 400\<rparr>, [])"
    using gpt_api_rejects_empty_input [OF h2, of ?env "[]"] by simp
  have 3: "snd (gpt_api ?env ?r3 []) = []"
    using gpt_api_rejects_empty_input [OF h3, of ?env "[]"] by (rule conjunct1)
  from 1 2 3 show ?thesis by (intro conjI)
qed

text \<open>
  Claim C6, as stated, at the body \<open>null\<close>: the request has no \<open>input\<close>, and the handler
  raises \<open>AttributeError\<close> at \<open>data.get\<close>, outside its \<open>try\<close>, instead of answering 400.
\<close>

theorem gpt_api_null_body_counterexample:
  "gpt_api (stub_env (\<lambda>k. Inl (Raised ''unreachable''))) \<lparr>get_json = Inr JNull\<rparr> []
     = (Inl (AttributeError ([CHR 0x27] @ ''NoneType'' @ [CHR 0x27] @ '' object has no attribute ''
                              @ [CHR 0x27] @ ''get'' @ [CHR 0x27])), [])"
  by (simp add: gpt_api_def)

text \<open>
  Claim C7. A \<open>POST /gpt\<close> request with a non-empty \<open>input\<close> string, for which the completion
  client returns at least one choice, is answered with status 200 and the body
  \<open>{"response": text}\<close>, where \<open>text\<close> is the content of the first choice; the client is
  called once, with the fixed model name, the prompt and the cap of 150 tokens.
\<close>

theorem gpt_api_relays_first_completion:
  assumes "get_json request = Inr (JObj d)"
    and "d ''input'' = Some (JStr prompt)" and "prompt \<noteq> ''''"
    and "chat_completions_create env ''gpt-3.5-turbo'' (JStr prompt) 150 = Inr (text # others)"
  shows "gpt_api env request t
    = (Inr \<lparr>body = JObj [''response'' \<mapsto> text], status_code = 200\<rparr>,
       t @ [ChatCompletion ''gpt-3.5-turbo'' (JStr prompt) 150])"
  using assms by (simp add: gpt_api_def)

theorem gpt_api_relays_first_completion_witness:
  "gpt_api (stub_env (\<lambda>k. Inl (Raised ''unreachable'')))
      \<lparr>get_json = Inr (JObj [''input'' \<mapsto> JStr ''hello''])\<rparr> []
    = (Inr \<lparr>body = JObj [''response'' \<mapsto> JStr ''hi''], status_code = 200\<rparr>,
       [ChatCompletion ''gpt-3.5-turbo'' (JStr ''hello'') 150])"
  using gpt_api_relays_first_completion
    [of "\<lparr>get_json = Inr (JObj [''input'' \<mapsto> JStr ''hello''])\<rparr>" "[''input'' \<mapsto> JStr ''hello'']"
        "''hello''" "stub_env (\<lambda>k. Inl (Raised ''unreachable''))" "JStr ''hi''" "[]" "[]"]
  by (simp add: stub_env_def)

section \<open>Saving the upload\<close>

















section \<open>The upload pipeline\<close>

lemma filter_store_waits:
  "filter is_store (t @ concat (replicate n [GetFaceDetection j, Sleep d]) @ [GetFaceDetection j])
     = filter is_store t"
  by (induction n) simp_all

lemma poll_keeps_stores:
  assumes "poll_face_detection env job_id t = Some (r, t')"
  shows "filter is_store t' = filter is_store t \<and> set t \<subseteq> set t'"
proof -
  from poll_returns_after_waits [OF assms] obtain n where
    "t' = t @ concat (replicate n [GetFaceDetection job_id, Sleep 5]) @ [GetFaceDetection job_id]"
    by auto
  then have "filter is_store t' = filter is_store t" and "set t \<subseteq> set t'"
    by (simp_all only: filter_store_waits set_append Un_upper1)
  then show ?thesis by (rule conjI)
qed

text \<open>
  Claim C4. On a run of \<open>POST /upload\<close> with a valid file where the save, the transcoder, the
  store and the job submission succeed and the poller returns a payload, the response is 200 with
  exactly that payload; the store is called exactly once, with the basename of the transcoder's
  output path as the key, and the detection job is started on that same key.
\<close>

theorem upload_video_success:
  assumes "files request ''file'' = Some file" and "filename file \<noteq> ''''"
    and "allowed_file (filename file) = Inr True"
    and "saved = os_path_join (UPLOAD_FOLDER env) (secure_filename env (filename file))"
    and "file_save env saved (stream file) = None"
    and "convert_video_to_aws_rekognition env saved = Inr converted"
    and "key = os_path_basename converted"
    and "upload_file env converted S3_BUCKET key = None"
    and "start_face_detection env S3_BUCKET key ''ALL'' = Inr (Some job_id)"
    and "poll_face_detection env job_id
           (t @ [FileSave saved (stream file), Convert saved, S3Upload converted S3_BUCKET key,
                 StartFaceDetection S3_BUCKET key ''ALL''])
         = Some (Inr payload, t')"
  shows "upload_video env request t = Some (Inr \<lparr>body = JObj payload, status_code = 200\<rparr>, t')
     \<and> filter is_store t' = filter is_store t @ [S3Upload converted S3_BUCKET (os_path_basename converted)]
     \<and> StartFaceDetection S3_BUCKET (os_path_basename converted) ''ALL'' \<in> set t'"
proof -
  let ?t4 = "t @ [FileSave saved (stream file), Convert saved, S3Upload converted S3_BUCKET key,
                 StartFaceDetection S3_BUCKET key ''ALL'']"
  have sv: "save_uploaded_file env file (UPLOAD_FOLDER env) t
      = (Inr saved, t @ [FileSave saved (stream file)])"
    using assms(4,5) by (simp add: save_uploaded_file_def Let_def)
  have pf: "process_face_detection env key
      (t @ [FileSave saved (stream file), Convert saved, S3Upload converted S3_BUCKET key])
      = Some (\<lparr>body = JObj payload, status_code = 200\<rparr>, t')"
    using assms(9,10) by (simp add: process_face_detection_def Let_def)
  have run: "upload_video env request t = Some (Inr \<lparr>body = JObj payload, status_code = 200\<rparr>, t')"
    using assms(1,2,3,6,8) sv pf unfolding assms(7) by (simp add: upload_video_def Let_def)
  from poll_keeps_stores [OF assms(10)]
  have k: "filter is_store t' = filter is_store ?t4" "set ?t4 \<subseteq> set t'" by simp_all
  have st: "filter is_store t' = filter is_store t @ [S3Upload converted S3_BUCKET (os_path_basename converted)]"
    using k(1) assms(7) by simp
  have "StartFaceDetection S3_BUCKET key ''ALL'' \<in> set ?t4" by simp
  with k(2) have "StartFaceDetection S3_BUCKET (os_path_basename converted) ''ALL'' \<in> set t'"
    unfolding assms(7) by blast
  with run st show ?thesis by (intro conjI)
qed

theorem upload_video_success_witness:
  "upload_video (stub_env (\<lambda>k. Inr (status_response ''SUCCEEDED'' None)))
      \<lparr>files = [''file'' \<mapsto> \<lparr>filename = ''clip.mp4'', stream = ''data''\<rparr>]\<rparr> []
    = Some (Inr \<lparr>body = JObj [''status'' \<mapsto> JStr ''SUCCEEDED'', ''video_metadata'' \<mapsto> JObj Map.empty,
                                ''faces'' \<mapsto> JList [], ''next_token'' \<mapsto> JStr ''''],
                 status_code = 200\<rparr>,
            [FileSave ''/srv/app/uploads/clip.mp4'' ''data'', Convert ''/srv/app/uploads/clip.mp4'',
             S3Upload ''/srv/app/converted/clip_aws.mp4'' ''jchang-fbla-bucket'' ''clip_aws.mp4'',
             StartFaceDetection ''jchang-fbla-bucket'' ''clip_aws.mp4'' ''ALL'',
             GetFaceDetection ''job-1''])"
proof -
  let ?env = "stub_env (\<lambda>k. Inr (status_response ''SUCCEEDED'' None))"
  let ?file = "\<lparr>filename = ''clip.mp4'', stream = ''data''\<rparr>"
  let ?req = "\<lparr>files = [''file'' \<mapsto> ?file]\<rparr>"
  let ?saved = "''/srv/app/uploads/clip.mp4''"
  let ?conv = "''/srv/app/converted/clip_aws.mp4''"
  let ?key = "''clip_aws.mp4''"
  let ?t4 = "[] @ [FileSave ?saved (stream ?file), Convert ?saved, S3Upload ?conv S3_BUCKET ?key,
                 StartFaceDetection S3_BUCKET ?key ''ALL'']"
  let ?payload = "[''status'' \<mapsto> JStr ''SUCCEEDED'', ''video_metadata'' \<mapsto> JObj Map.empty,
                   ''faces'' \<mapsto> JList [], ''next_token'' \<mapsto> JStr '''']"
  have 1: "files ?req ''file'' = Some ?file" by simp
  have 2: "filename ?file \<noteq> ''''" by simp
  have 3: "allowed_file (filename ?file) = Inr True"
    by (simp add: allowed_file_def rsplit1_def str_lower_def lower_char_def ALLOWED_EXTENSIONS_def)
  have s: "secure_filename ?env (filename ?file) = ''clip.mp4''"
    by (simp add: stub_env_def secure_filename_ascii_def strip_chars_def is_space_def)
  have u: "UPLOAD_FOLDER ?env = ''/srv/app/uploads''"
    by (simp add: UPLOAD_FOLDER_def os_path_join_def stub_env_def)
  have 4: "?saved = os_path_join (UPLOAD_FOLDER ?env) (secure_filename ?env (filename ?file))"
    unfolding s u by (simp add: os_path_join_def)
  have 5: "file_save ?env ?saved (stream ?file) = None" by (simp add: stub_env_def)
  have 6: "convert_video_to_aws_rekognition ?env ?saved = Inr ?conv" by (simp add: stub_env_def)
  have 7: "?key = os_path_basename ?conv" by (simp add: os_path_basename_def)
  have 8: "upload_file ?env ?conv S3_BUCKET ?key = None" by (simp add: stub_env_def)
  have 9: "start_face_detection ?env S3_BUCKET ?key ''ALL'' = Inr (Some ''job-1'')"
    by (simp add: stub_env_def)
  have g: "get_face_detection ?env (polls_made ?t4) ''job-1'' = Inr (status_response ''SUCCEEDED'' None)"
    by (simp add: stub_env_def)
  have js: "JobStatus (status_response ''SUCCEEDED'' None) = Some ''SUCCEEDED''"
    by (simp add: status_response_def)
  have 10: "poll_face_detection ?env ''job-1'' ?t4 = Some (Inr ?payload, ?t4 @ [GetFaceDetection ''job-1''])"
    using poll_succeeded [OF g js] by (simp add: status_response_def)
  from upload_video_success [OF 1 2 3 4 5 6 7 8 9 10]
  show ?thesis by (simp add: S3_BUCKET_def)
qed

text \<open>
  Claim C8. For a \<open>POST /upload\<close> request that passes validation, if the local save, the
  transcoder, the store, the job submission or the poller raises an exception \<open>e\<close> (the missing
  \<open>JobId\<close> of a submission response included), the response is 500 with the body
  \<open>{"error": str(e)}\<close>.
\<close>

theorem upload_video_stage_failure:
  assumes "files request ''file'' = Some file" and "filename file \<noteq> ''''"
    and "allowed_file (filename file) = Inr True"
    and "saved = os_path_join (UPLOAD_FOLDER env) (secure_filename env (filename file))"
    and "file_save env saved (stream file) = Some e
       \<or> file_save env saved (stream file) = None \<and>
         (convert_video_to_aws_rekognition env saved = Inl e
          \<or> (\<exists>converted. convert_video_to_aws_rekognition env saved = Inr converted \<and>
              (upload_file env converted S3_BUCKET (os_path_basename converted) = Some e
               \<or> upload_file env converted S3_BUCKET (os_path_basename converted) = None \<and>
                 (start_face_detection env S3_BUCKET (os_path_basename converted) ''ALL'' = Inl e
                  \<or> start_face_detection env S3_BUCKET (os_path_basename converted) ''ALL'' = Inr None \<and> e = KeyError ''JobId''
                  \<or> (\<exists>job_id t'. start_face_detection env S3_BUCKET (os_path_basename converted) ''ALL'' = Inr (Some job_id) \<and>
                        poll_face_detection env job_id
                          (t @ [FileSave saved (stream file), Convert saved,
                                S3Upload converted S3_BUCKET (os_path_basename converted),
                                StartFaceDetection S3_BUCKET (os_path_basename converted) ''ALL''])
                        = Some (Inl e, t'))))))"
  shows "\<exists>t'. upload_video env request t
           = Some (Inr \<lparr>body = JObj [''error'' \<mapsto> JStr (str_exn e)], status_code = 500\<rparr>, t')"
proof -
  let ?err = "\<lparr>body = JObj [''error'' \<mapsto> JStr (str_exn e)], status_code = 500\<rparr>"
  let ?t1 = "t @ [FileSave saved (stream file)]"
  have sv: "save_uploaded_file env file (UPLOAD_FOLDER env) t
      = (case file_save env saved (stream file) of None \<Rightarrow> Inr saved | Some e \<Rightarrow> Inl e, ?t1)"
    using assms(4) by (simp add: save_uploaded_file_def Let_def split: option.split)
  have uv: "upload_video env request t
      = (case save_uploaded_file env file (UPLOAD_FOLDER env) t of
           (Inl e, t1) \<Rightarrow> Some (Inr (jsonify_error (str_exn e) 500), t1)
         | (Inr saved_file_path, t1) \<Rightarrow>
             (let t2 = t1 @ [Convert saved_file_path] in
              case convert_video_to_aws_rekognition env saved_file_path of
                Inl e \<Rightarrow> Some (Inr (jsonify_error (str_exn e) 500), t2)
              | Inr converted_path \<Rightarrow>
                  (let converted_filename = os_path_basename converted_path;
                       t3 = t2 @ [S3Upload converted_path S3_BUCKET converted_filename]
                   in case upload_file env converted_path S3_BUCKET converted_filename of
                        Some e \<Rightarrow> Some (Inr (jsonify_error (str_exn e) 500), t3)
                      | None \<Rightarrow>
                          (case process_face_detection env converted_filename t3 of
                             None \<Rightarrow> None
                           | Some (r, t4) \<Rightarrow> Some (Inr r, t4)))))"
    using assms(1,2,3) by (simp add: upload_video_def)
  have save: "?thesis" if "file_save env saved (stream file) = Some e"
  proof -
    from that have "upload_video env request t = Some (Inr ?err, ?t1)"
      by (simp add: uv sv jsonify_error_def Let_def)
    then show ?thesis by blast
  qed
  have convert: "?thesis" if "file_save env saved (stream file) = None"
    "convert_video_to_aws_rekognition env saved = Inl e"
  proof -
    from that have "upload_video env request t = Some (Inr ?err, ?t1 @ [Convert saved])"
      by (simp add: uv sv jsonify_error_def Let_def)
    then show ?thesis by blast
  qed
  have store: "?thesis" if "file_save env saved (stream file) = None"
    "convert_video_to_aws_rekognition env saved = Inr converted"
    "upload_file env converted S3_BUCKET (os_path_basename converted) = Some e" for converted
  proof -
    from that have "upload_video env request t
        = Some (Inr ?err, ?t1 @ [Convert saved]
                  @ [S3Upload converted S3_BUCKET (os_path_basename converted)])"
      by (simp add: uv sv jsonify_error_def Let_def)
    then show ?thesis by blast
  qed
  have start: "?thesis" if "file_save env saved (stream file) = None"
    "convert_video_to_aws_rekognition env saved = Inr converted"
    "upload_file env converted S3_BUCKET (os_path_basename converted) = None"
    "start_face_detection env S3_BUCKET (os_path_basename converted) ''ALL'' = Inl e" for converted
  proof -
    from that have "upload_video env request t
        = Some (Inr ?err, ?t1 @ [Convert saved]
                  @ [S3Upload converted S3_BUCKET (os_path_basename converted)]
                  @ [StartFaceDetection S3_BUCKET (os_path_basename converted) ''ALL''])"
      by (simp add: uv sv jsonify_error_def process_face_detection_def Let_def)
    then show ?thesis by blast
  qed
  have nojob: "?thesis" if "file_save env saved (stream file) = None"
    "convert_video_to_aws_rekognition env saved = Inr converted"
    "upload_file env converted S3_BUCKET (os_path_basename converted) = None"
    "start_face_detection env S3_BUCKET (os_path_basename converted) ''ALL'' = Inr None"
    "e = KeyError ''JobId''" for converted
  proof -
    from that have "upload_video env request t
        = Some (Inr ?err, ?t1 @ [Convert saved]
                  @ [S3Upload converted S3_BUCKET (os_path_basename converted)]
                  @ [StartFaceDetection S3_BUCKET (os_path_basename converted) ''ALL''])"
      by (simp add: uv sv jsonify_error_def process_face_detection_def Let_def)
    then show ?thesis by blast
  qed
  have poll: "?thesis" if "file_save env saved (stream file) = None"
    "convert_video_to_aws_rekognition env saved = Inr converted"
    "upload_file env converted S3_BUCKET (os_path_basename converted) = None"
    "start_face_detection env S3_BUCKET (os_path_basename converted) ''ALL'' = Inr (Some job_id)"
    "poll_face_detection env job_id
           (t @ [FileSave saved (stream file), Convert saved,
                 S3Upload converted S3_BUCKET (os_path_basename converted),
                 StartFaceDetection S3_BUCKET (os_path_basename converted) ''ALL''])
         = Some (Inl e, t')" for converted job_id t'
  proof -
    from that have "upload_video env request t = Some (Inr ?err, t')"
      by (simp add: uv sv jsonify_error_def process_face_detection_def Let_def)
    then show ?thesis by blast
  qed
  from assms(5) show ?thesis
    apply (elim disjE conjE exE)
         apply (erule save)
        apply (erule (1) convert)
       apply (erule (2) store)
      apply (erule (3) start)
     apply (erule (4) nojob)
    apply (erule (4) poll)
    done
qed

theorem upload_video_stage_failure_witness:
  "(\<exists>t'. upload_video
        ((stub_env (\<lambda>k. Inl (Raised ''unreachable'')))
           \<lparr>convert_video_to_aws_rekognition := (\<lambda>path. Inl (Raised ''ffmpeg failed''))\<rparr>)
        \<lparr>files = [''file'' \<mapsto> \<lparr>filename = ''clip.mp4'', stream = ''data''\<rparr>]\<rparr> []
      = Some (Inr \<lparr>body = JObj [''error'' \<mapsto> JStr ''ffmpeg failed''], status_code = 500\<rparr>, t'))
   \<and> (\<exists>t'. upload_video
        (stub_env (\<lambda>k. Inr (status_response ''FAILED'' (Some ''corrupt video''))))
        \<lparr>files = [''file'' \<mapsto> \<lparr>filename = ''clip.mp4'', stream = ''data''\<rparr>]\<rparr> []
      = Some (Inr \<lparr>body = JObj [''error'' \<mapsto> JStr ''corrupt video''], status_code = 500\<rparr>, t'))"
proof -
  let ?e1 = "(stub_env (\<lambda>k. Inl (Raised ''unreachable'')))
           \<lparr>convert_video_to_aws_rekognition := (\<lambda>path. Inl (Raised ''ffmpeg failed''))\<rparr>"
  let ?e2 = "stub_env (\<lambda>k. Inr (status_response ''FAILED'' (Some ''corrupt video'')))"
  let ?file = "\<lparr>filename = ''clip.mp4'', stream = ''data''\<rparr>"
  let ?req = "\<lparr>files = [''file'' \<mapsto> ?file]\<rparr>"
  let ?saved = "''/srv/app/uploads/clip.mp4''"
  let ?conv = "''/srv/app/converted/clip_aws.mp4''"
  have 1: "files ?req ''file'' = Some ?file" by simp
  have 2: "filename ?file \<noteq> ''''" by simp
  have 3: "allowed_file (filename ?file) = Inr True"
    by (simp add: allowed_file_def rsplit1_def str_lower_def lower_char_def ALLOWED_EXTENSIONS_def)
  have sf: "secure_filename_ascii ''clip.mp4'' = ''clip.mp4''"
    by (simp add: secure_filename_ascii_def strip_chars_def is_space_def)
  have j: "os_path_join (os_path_join ''/srv/app'' ''uploads'') ''clip.mp4'' = ?saved"
    by (simp add: os_path_join_def)
  have 41: "?saved = os_path_join (UPLOAD_FOLDER ?e1) (secure_filename ?e1 (filename ?file))"
    by (simp add: UPLOAD_FOLDER_def stub_env_def sf j)
  have 42: "?saved = os_path_join (UPLOAD_FOLDER ?e2) (secure_filename ?e2 (filename ?file))"
    by (simp add: UPLOAD_FOLDER_def stub_env_def sf j)
  have 51: "file_save ?e1 ?saved (stream ?file) = None
      \<and> convert_video_to_aws_rekognition ?e1 ?saved = Inl (Raised ''ffmpeg failed'')"
    by (simp add: stub_env_def)
  let ?t4 = "[] @ [FileSave ?saved (stream ?file), Convert ?saved,
                   S3Upload ?conv S3_BUCKET (os_path_basename ?conv),
                   StartFaceDetection S3_BUCKET (os_path_basename ?conv) ''ALL'']"
  have g: "get_face_detection ?e2 (polls_made ?t4) ''job-1''
      = Inr (status_response ''FAILED'' (Some ''corrupt video''))"
    by (simp add: stub_env_def)
  have js: "JobStatus (status_response ''FAILED'' (Some ''corrupt video'')) = Some ''FAILED''"
    by (simp add: status_response_def)
  have p: "poll_face_detection ?e2 ''job-1'' ?t4
      = Some (Inl (Exception ''corrupt video''), ?t4 @ [GetFaceDetection ''job-1''])"
    using poll_other [OF g js] by (simp add: status_response_def)
  have 52: "file_save ?e2 ?saved (stream ?file) = None
      \<and> convert_video_to_aws_rekognition ?e2 ?saved = Inr ?conv
      \<and> upload_file ?e2 ?conv S3_BUCKET (os_path_basename ?conv) = None
      \<and> start_face_detection ?e2 S3_BUCKET (os_path_basename ?conv) ''ALL'' = Inr (Some ''job-1'')"
    by (simp add: stub_env_def)
  have a: "\<exists>t'. upload_video ?e1 ?req []
      = Some (Inr \<lparr>body = JObj [''error'' \<mapsto> JStr (str_exn (Raised ''ffmpeg failed''))],
                   status_code = 500\<rparr>, t')"
    by (rule upload_video_stage_failure [OF 1 2 3 41]) (use 51 in blast)
  have b: "\<exists>t'. upload_video ?e2 ?req []
      = Some (Inr \<lparr>body = JObj [''error'' \<mapsto> JStr (str_exn (Exception ''corrupt video''))],
                   status_code = 500\<rparr>, t')"
    by (rule upload_video_stage_failure [OF 1 2 3 42]) (use 52 p in blast)
  from a b show ?thesis by simp
qed

end
